theory Spec2Isabelle
  imports Main
begin

section \<open>Ephemeral file lifecycle of the File-Transfer service\<close>

text \<open>
  A shallow embedding of the file model (\<^verbatim>\<open>internal/models/files.go\<close>), of the file
  handlers and of the helpers they call (purge, blob creation, code generation).
  Go strings are byte strings, so \<^typ>\<open>string\<close> (a list of 8-bit characters) is their
  model and \<^const>\<open>length\<close> is Go's \<^verbatim>\<open>len\<close>. The \<^verbatim>\<open>int64\<close> fields are compared and never
  computed with, so they are integers. A point in time is its Unix time in nanoseconds;
  a duration is a number of nanoseconds, as \<^verbatim>\<open>time.Duration\<close> is.
\<close>

subsection \<open>Time\<close>

type_synonym time = int

definition Second :: int where
  "Second = 1000000000"

definition Minute :: int where
  "Minute = 60 * Second"

subsection \<open>Errors\<close>

text \<open>
  The error values the file code creates or receives. \<^verbatim>\<open>ErrNoRows\<close> is \<^verbatim>\<open>sql.ErrNoRows\<close>;
  a \<^verbatim>\<open>DriverError\<close> is any other error of the database driver, carried as its message
  (a constraint violation, a timeout of the 3 second context, a lost connection); a
  \<^verbatim>\<open>PathError\<close> is Go's \<^verbatim>\<open>*fs.PathError\<close> with its operation, path and cause.
  \<^verbatim>\<open>err_Error\<close> is the method \<^verbatim>\<open>Error()\<close>, which the code compares with string literals.
\<close>

datatype error =
    ErrRecordNotFound
  | ErrEditConflict
  | ErrDuplicatePath
  | ErrNoRows
  | DriverError string
  | PathError string string string
  | OtherError string

fun err_Error :: "error \<Rightarrow> string" where
  "err_Error ErrRecordNotFound = ''record not found''"
| "err_Error ErrEditConflict = ''edit conflict''"
| "err_Error ErrDuplicatePath = ''duplicate path''"
| "err_Error ErrNoRows = ''sql: no rows in result set''"
| "err_Error (DriverError m) = m"
| "err_Error (PathError op p m) = op @ '' '' @ p @ '': '' @ m"
| "err_Error (OtherError m) = m"

subsection \<open>The file record and its validation\<close>

record File =
  ID :: int
  Name :: string
  Size :: int
  Path :: string
  Code :: string
  Expiry :: time
  CreatedAt :: time
  LastUpdated :: time
  UserID :: int

text \<open>The two fields of a user the file code reads.\<close>

record User =
  uID :: int
  Email :: string

text \<open>
  Modelled from the spec: the package \<^verbatim>\<open>internal/validator\<close> is not among the sources.
  The spec says that name, size and code are validated statically before any I/O and
  that a failure is an invalid input; the model is the map of error messages by key
  that \<^verbatim>\<open>failedValidationResponse\<close> receives: \<^verbatim>\<open>Check\<close> records a message when its
  condition is false, \<^verbatim>\<open>AddError\<close> keeps the first message of a key, \<^verbatim>\<open>Valid\<close> holds
  when there is none.
\<close>

record Validator =
  Errors :: "(string \<times> string) list"

definition validator_New :: Validator where
  "validator_New = \<lparr>Errors = []\<rparr>"

definition AddError :: "Validator \<Rightarrow> string \<Rightarrow> string \<Rightarrow> Validator" where
  "AddError v key message =
     (if map_of (Errors v) key = None then v\<lparr>Errors := Errors v @ [(key, message)]\<rparr> else v)"

definition Check :: "Validator \<Rightarrow> bool \<Rightarrow> string \<Rightarrow> string \<Rightarrow> Validator" where
  "Check v ok key message = (if \<not> ok then AddError v key message else v)"

definition Valid :: "Validator \<Rightarrow> bool" where
  "Valid v = (length (Errors v) = 0)"

definition ValidateFile :: "Validator \<Rightarrow> File \<Rightarrow> Validator" where
  "ValidateFile v file =
     (let v1 = Check v (length (Name file) \<le> 50) ''file_name''
                 ''must not be more than 50 bytes long'';
          v2 = Check v1 (Size file \<le> 1000000) ''file_size''
                 ''must not be more than 1_000_000 bytes big'';
          v3 = Check v2 (length (Code file) = 8) ''code'' ''must be 8 bytes long''
      in v3)"

subsection \<open>The code generator\<close>

definition letterRunes :: string where
  "letterRunes = ''abcdefghijklmnopqrstuvwxyzABCDEFGHIJKLMNOPQRSTUVWXYZ1234567890''"

text \<open>
  \<^verbatim>\<open>math/rand\<close> belongs to Go's library, so the generator is a parameter: \<open>NewSource seed\<close>
  is the source seeded with \<open>seed\<close>, given as the sequence of numbers it yields, and it
  is a function of the seed alone, as \<^verbatim>\<open>rand.NewSource\<close> is. \<^verbatim>\<open>r.Intn(n)\<close> lies in
  \<open>[0, n)\<close>; the \<open>k\<close>-th call on a source reduces its \<open>k\<close>-th number into that range,
  so every sequence of results that Go can produce is the result of some source.
  The code calls it with \<open>n = 62\<close> only, where Go does not panic.
\<close>

type_synonym rand_source = "nat \<Rightarrow> nat"

definition Intn :: "rand_source \<Rightarrow> nat \<Rightarrow> nat \<Rightarrow> nat" where
  "Intn r k n = r k mod n"

text \<open>\<open>now\<close> is the value of \<^verbatim>\<open>time.Now().UnixNano()\<close> that seeds the source.\<close>

definition generateUniqueString :: "(int \<Rightarrow> rand_source) \<Rightarrow> time \<Rightarrow> string" where
  "generateUniqueString NewSource now =
     (let r = NewSource now
      in map (\<lambda>i. letterRunes ! Intn r i (length letterRunes)) [0..<8])"

text \<open>A source for concrete runs: the seed, then steps of seven.\<close>

definition sample_source :: "int \<Rightarrow> rand_source" where
  "sample_source seed k = nat \<bar>seed\<bar> + 7 * k"

subsection \<open>The metadata store\<close>

text \<open>
  The table \<^verbatim>\<open>files\<close>: its rows in insertion order and the last value of the sequence
  behind the \<^verbatim>\<open>bigserial\<close> column \<^verbatim>\<open>id\<close>. The columns \<^verbatim>\<open>path\<close> and \<^verbatim>\<open>code\<close> are unique.
  Every owner is taken to exist in the table of users.
  Each operation below issues one statement; \<open>drv\<close> is the error the driver
  reports for it when the statement does not run (\<open>None\<close> when it runs).
\<close>

record store =
  rows :: "File list"
  seq :: int

text \<open>
  The columns \<^verbatim>\<open>expiry\<close>, \<^verbatim>\<open>created_at\<close> and \<^verbatim>\<open>last_updated\<close> are \<^verbatim>\<open>timestamp(0)\<close>: they keep a
  point in time rounded to the nearest whole second, a tie upwards. The server reads a
  value to the microsecond before it rounds it; that step, which matters only to a
  reading less than a microsecond under a half second, is left out.
\<close>

definition timestamp0 :: "time \<Rightarrow> time" where
  "timestamp0 t = ((t + Second div 2) div Second) * Second"

definition path_key_msg :: string where
  \<open>path_key_msg = ''pq: duplicate key value violates unique constraint "files_path_key"''\<close>

definition code_key_msg :: string where
  \<open>code_key_msg = ''pq: duplicate key value violates unique constraint "files_code_key"''\<close>

text \<open>
  \<^verbatim>\<open>QueryRowContext(...).Scan\<close>: the driver's error, \<^verbatim>\<open>sql.ErrNoRows\<close> when the
  statement yields no row, else its first row.
\<close>

definition QueryRow :: "error option \<Rightarrow> 'a list \<Rightarrow> error + 'a" where
  "QueryRow drv rs =
     (case drv of
        Some e \<Rightarrow> Inl e
      | None \<Rightarrow> (case rs of [] \<Rightarrow> Inl ErrNoRows | r # _ \<Rightarrow> Inr r))"

text \<open>
  The \<^verbatim>\<open>INSERT ... RETURNING id, created_at, last_updated\<close> statement. The sequence
  advances before the unique indexes are checked, the index on \<^verbatim>\<open>path\<close> before the one
  on \<^verbatim>\<open>code\<close>; \<open>db_now\<close> is the database's \<^verbatim>\<open>NOW()\<close>. The row keeps the expiry as the
  column rounds it; the file returned keeps the expiry it was given, since only the
  three returned columns are scanned into it.
\<close>

definition insert_returning :: "time \<Rightarrow> error option \<Rightarrow> store \<Rightarrow> File \<Rightarrow> (error + File) \<times> store" where
  "insert_returning db_now drv db file =
     (case drv of
        Some e \<Rightarrow> (Inl e, db)
      | None \<Rightarrow>
          (let i = seq db + 1;
               db1 = db\<lparr>seq := i\<rparr>
           in if list_ex (\<lambda>r. Path r = Path file) (rows db)
              then (Inl (DriverError path_key_msg), db1)
              else if list_ex (\<lambda>r. Code r = Code file) (rows db)
              then (Inl (DriverError code_key_msg), db1)
              else (let f = file\<lparr>ID := i, CreatedAt := timestamp0 db_now,
                                     LastUpdated := timestamp0 db_now\<rparr>
                    in (Inr f, db1\<lparr>rows := rows db @ [f\<lparr>Expiry := timestamp0 (Expiry file)\<rparr>]\<rparr>))))"

text \<open>
  \<^verbatim>\<open>Insert\<close> fills \<^verbatim>\<open>ID\<close>, \<^verbatim>\<open>CreatedAt\<close> and \<^verbatim>\<open>LastUpdated\<close> of the file it is given;
  the model returns the filled file.
\<close>

definition Insert :: "time \<Rightarrow> error option \<Rightarrow> store \<Rightarrow> File \<Rightarrow> (error + File) \<times> store" where
  "Insert db_now drv db file =
     (case insert_returning db_now drv db file of
        (Inl err, db') \<Rightarrow>
          (if err_Error err = path_key_msg then (Inl ErrDuplicatePath, db')
           else (Inl err, db'))
      | (Inr f, db') \<Rightarrow> (Inr f, db'))"

text \<open>The switch on \<^verbatim>\<open>errors.Is(err, sql.ErrNoRows)\<close> of the queries.\<close>

definition no_rows_not_found :: "error \<Rightarrow> error" where
  "no_rows_not_found err = (if err = ErrNoRows then ErrRecordNotFound else err)"

text \<open>The queries select eight columns: \<^verbatim>\<open>UserID\<close> of the result keeps Go's zero value.\<close>

definition scan8 :: "File \<Rightarrow> File" where
  "scan8 r = r\<lparr>UserID := 0\<rparr>"

definition GetFromUser :: "time \<Rightarrow> error option \<Rightarrow> store \<Rightarrow> int \<Rightarrow> User \<Rightarrow> error + File" where
  "GetFromUser now drv db fid u =
     (if fid < 1 then Inl ErrRecordNotFound
      else (case QueryRow drv
                   (filter (\<lambda>r. ID r = fid \<and> UserID r = uID u \<and> Expiry r > now) (rows db)) of
              Inl err \<Rightarrow> Inl (no_rows_not_found err)
            | Inr r \<Rightarrow> Inr (scan8 r)))"

definition GetAllFromUser :: "time \<Rightarrow> error option \<Rightarrow> store \<Rightarrow> User \<Rightarrow> error + File list" where
  "GetAllFromUser now drv db u =
     (case drv of
        Some e \<Rightarrow> Inl e
      | None \<Rightarrow> Inr (map scan8 (filter (\<lambda>r. UserID r = uID u \<and> Expiry r > now) (rows db))))"

definition GetFromCode :: "time \<Rightarrow> error option \<Rightarrow> store \<Rightarrow> string \<Rightarrow> error + File" where
  "GetFromCode now drv db code =
     (case QueryRow drv (filter (\<lambda>r. Code r = code \<and> Expiry r > now) (rows db)) of
        Inl err \<Rightarrow> Inl (no_rows_not_found err)
      | Inr r \<Rightarrow> Inr (scan8 r))"


definition Delete :: "time \<Rightarrow> error option \<Rightarrow> store \<Rightarrow> int \<Rightarrow> error option \<times> store" where
  "Delete now drv db fid =
     (if fid < 1 then (Some ErrRecordNotFound, db)
      else (case drv of
              Some e \<Rightarrow> (Some e, db)
            | None \<Rightarrow>
                (let rowsAffected = length (filter (\<lambda>r. ID r = fid \<and> Expiry r > now) (rows db));
                     db' = db\<lparr>rows := filter (\<lambda>r. \<not> (ID r = fid \<and> Expiry r > now)) (rows db)\<rparr>
                 in if rowsAffected = 0 then (Some ErrRecordNotFound, db')
                    else (None, db'))))"

text \<open>
  \<^verbatim>\<open>DeleteFromUser\<close> returns the path and the error. Any error of the scan, \<^verbatim>\<open>sql.ErrNoRows\<close>
  included, leaves through the first \<^verbatim>\<open>if err != nil\<close>; the switch after it is never
  reached.
\<close>

definition DeleteFromUser ::
  "time \<Rightarrow> error option \<Rightarrow> store \<Rightarrow> int \<Rightarrow> User \<Rightarrow> (string \<times> error option) \<times> store" where
  "DeleteFromUser now drv db fid u =
     (if fid < 1 then (('''', Some ErrRecordNotFound), db)
      else (let hit = (\<lambda>r. ID r = fid \<and> UserID r = uID u \<and> Expiry r > now)
            in case QueryRow drv (map Path (filter hit (rows db))) of
                 Inl err \<Rightarrow> (('''', Some err), db)
               | Inr path \<Rightarrow> ((path, None), db\<lparr>rows := filter (\<lambda>r. \<not> hit r) (rows db)\<rparr>)))"

subsection \<open>Paths\<close>

text \<open>
  \<^verbatim>\<open>path/filepath\<close> on a Unix system. \<^verbatim>\<open>Clean\<close> drops empty and \<^verbatim>\<open>.\<close> elements, lets a
  \<^verbatim>\<open>..\<close> element cancel the element before it, and yields \<^verbatim>\<open>.\<close> for an empty result;
  \<^verbatim>\<open>Dir\<close> cleans the path up to and including its last separator.
\<close>

fun split_path :: "string \<Rightarrow> string list" where
  "split_path [] = [[]]"
| "split_path (c # cs) =
     (if c = CHR ''/'' then [] # split_path cs
      else (case split_path cs of [] \<Rightarrow> [[c]] | x # xs \<Rightarrow> (c # x) # xs))"

fun join_path :: "string list \<Rightarrow> string" where
  "join_path [] = []"
| "join_path [x] = x"
| "join_path (x # y # ys) = x @ ''/'' @ join_path (y # ys)"

definition clean_step :: "bool \<Rightarrow> string list \<Rightarrow> string \<Rightarrow> string list" where
  "clean_step rooted out elem =
     (if elem = '''' \<or> elem = ''.'' then out
      else if elem = ''..'' then
        (if out \<noteq> [] \<and> last out \<noteq> ''..'' then butlast out
         else if rooted then out
         else out @ [''..''])
      else out @ [elem])"

definition filepath_Clean :: "string \<Rightarrow> string" where
  "filepath_Clean path =
     (let rooted = (case path of [] \<Rightarrow> False | c # _ \<Rightarrow> c = CHR ''/'');
          out = foldl (clean_step rooted) [] (split_path path);
          s = (if rooted then ''/'' else '''') @ join_path out
      in if s = '''' then ''.'' else s)"

definition filepath_Dir :: "string \<Rightarrow> string" where
  "filepath_Dir path =
     filepath_Clean (rev (dropWhile (\<lambda>c. c \<noteq> CHR ''/'') (rev path)))"

subsection \<open>The blob store\<close>

text \<open>
  The file system as the process sees it from its working directory, without symbolic
  links: the regular files with their contents and the directories that exist, each
  under its cleaned path. The operations are those of Go's \<^verbatim>\<open>os\<close> package that the code
  calls, with the errors of a file system that is writable and not full: a name that
  does not exist, a directory that is not empty, a file where a directory is expected
  and the reverse. A \<^verbatim>\<open>PathError\<close> carries the name as the caller wrote it.
\<close>

record fsys =
  files :: "(string \<times> string) list"
  dirs :: "string list"

definition is_file :: "fsys \<Rightarrow> string \<Rightarrow> bool" where
  "is_file s k = (map_of (files s) k \<noteq> None)"

text \<open>
  The root, the working directory and the directories above it always exist and cannot
  be removed; their cleaned paths are \<^verbatim>\<open>/\<close>, \<^verbatim>\<open>.\<close> and the chains of \<^verbatim>\<open>..\<close>.
\<close>

definition fixed_dir :: "string \<Rightarrow> bool" where
  "fixed_dir k =
     (k = ''/'' \<or> (k \<noteq> [] \<and> list_all (\<lambda>e. e = ''.'' \<or> e = ''..'') (split_path k)))"

definition is_dir :: "fsys \<Rightarrow> string \<Rightarrow> bool" where
  "is_dir s k = (fixed_dir k \<or> k \<in> set (dirs s))"

text \<open>The entries of the directory \<open>k\<close>: the nodes whose parent it is.\<close>

definition entries :: "fsys \<Rightarrow> string \<Rightarrow> string list" where
  "entries s k = filter (\<lambda>q. q \<noteq> k \<and> filepath_Dir q = k) (map fst (files s) @ dirs s)"

definition ENOENT :: string where
  "ENOENT = ''no such file or directory''"

definition ENOTDIR :: string where
  "ENOTDIR = ''not a directory''"

text \<open>
  The kernel walks a name element by element. An element that is followed by another
  one, or by a separator, must be a directory: the walk fails with \<^verbatim>\<open>ENOTDIR\<close> where it
  is a regular file and with \<^verbatim>\<open>ENOENT\<close> where it does not exist. Without symbolic links the
  elements walked so far are the ones \<^verbatim>\<open>Clean\<close> has kept, so a walk that does not fail
  ends at the cleaned name. \<open>walk_error\<close> is the error of the walk, if any.
\<close>

definition render_path :: "bool \<Rightarrow> string list \<Rightarrow> string" where
  "render_path rooted out =
     (let s = (if rooted then ''/'' else '''') @ join_path out
      in if s = '''' then ''.'' else s)"

fun walk :: "fsys \<Rightarrow> bool \<Rightarrow> string list \<Rightarrow> string list \<Rightarrow> string option" where
  "walk s rooted out [] = None"
| "walk s rooted out (elem # rest) =
     (let out1 = clean_step rooted out elem;
          k = render_path rooted out1
      in if elem = '''' \<or> elem = ''.'' \<or> elem = ''..'' \<or> rest = []
         then walk s rooted out1 rest
         else if is_dir s k then walk s rooted out1 rest
         else if is_file s k then Some ENOTDIR
         else Some ENOENT)"

definition walk_error :: "fsys \<Rightarrow> string \<Rightarrow> string option" where
  "walk_error s name =
     walk s (case name of [] \<Rightarrow> False | c # _ \<Rightarrow> c = CHR ''/'') [] (split_path name)"

text \<open>
  \<^verbatim>\<open>os.Remove\<close> removes a file or an empty directory. The working directory, the
  directories above it and the root are never removed.
\<close>

definition os_Remove :: "fsys \<Rightarrow> string \<Rightarrow> error option \<times> fsys" where
  "os_Remove s name =
     (let k = filepath_Clean name
      in if name = '''' then (Some (PathError ''remove'' name ENOENT), s)
         else (case walk_error s name of
                 Some errno \<Rightarrow> (Some (PathError ''remove'' name errno), s)
               | None \<Rightarrow>
                   if is_file s k
                   then (None, s\<lparr>files := filter (\<lambda>kv. fst kv \<noteq> k) (files s)\<rparr>)
                   else if is_dir s k then
                     (if k = ''.'' then
                        (Some (PathError ''remove'' name ''invalid argument''), s)
                      else if k = ''/'' then
                        (Some (PathError ''remove'' name ''device or resource busy''), s)
                      else if \<not> fixed_dir k \<and> entries s k = [] then
                        (None, s\<lparr>dirs := filter (\<lambda>d. d \<noteq> k) (dirs s)\<rparr>)
                      else (Some (PathError ''remove'' name ''directory not empty''), s))
                   else (Some (PathError ''remove'' name ENOENT), s)))"

text \<open>\<^verbatim>\<open>os.ReadDir\<close>, as far as \<^verbatim>\<open>isFolderEmpty\<close> uses it.\<close>

definition os_ReadDir :: "fsys \<Rightarrow> string \<Rightarrow> error + string list" where
  "os_ReadDir s name =
     (let k = filepath_Clean name
      in if name = '''' then Inl (PathError ''open'' name ENOENT)
         else (case walk_error s name of
                 Some errno \<Rightarrow> Inl (PathError ''open'' name errno)
               | None \<Rightarrow>
                   if is_dir s k then Inr (entries s k)
                   else if is_file s k then Inl (PathError ''readdirent'' name ENOTDIR)
                   else Inl (PathError ''open'' name ENOENT)))"


text \<open>
  \<^verbatim>\<open>os.MkdirAll\<close> creates the directory and every missing parent, and fails where one
  of them is a regular file. The code calls it with the result of \<^verbatim>\<open>filepath.Dir\<close>, a
  cleaned path; \<open>path_prefixes\<close> lists such a path's ancestors and the path itself.
\<close>

definition path_prefixes :: "string \<Rightarrow> string list" where
  "path_prefixes k =
     (let rooted = (case k of [] \<Rightarrow> False | c # _ \<Rightarrow> c = CHR ''/'');
          elems = filter (\<lambda>e. e \<noteq> '''') (split_path k)
      in map (\<lambda>n. (if rooted then ''/'' else '''') @ join_path (take n elems))
             [1..<Suc (length elems)])"

definition os_MkdirAll :: "fsys \<Rightarrow> string \<Rightarrow> error option \<times> fsys" where
  "os_MkdirAll s name =
     (let ps = path_prefixes (filepath_Clean name)
      in if name = '''' then (Some (PathError ''mkdir'' name ENOENT), s)
         else (case filter (is_file s) ps of
                 p # _ \<Rightarrow> (Some (PathError ''mkdir'' p ''not a directory''), s)
               | [] \<Rightarrow> (None, s\<lparr>dirs := dirs s @ filter (\<lambda>p. \<not> is_dir s p) ps\<rparr>)))"

text \<open>\<^verbatim>\<open>os.Create\<close> makes the file or empties it; its directory must exist.\<close>

definition os_Create :: "fsys \<Rightarrow> string \<Rightarrow> error option \<times> fsys" where
  "os_Create s name =
     (let k = filepath_Clean name
      in if name = '''' then (Some (PathError ''open'' name ENOENT), s)
         else (case walk_error s name of
                 Some errno \<Rightarrow> (Some (PathError ''open'' name errno), s)
               | None \<Rightarrow>
                   if is_dir s k then (Some (PathError ''open'' name ''is a directory''), s)
                   else if \<not> is_dir s (filepath_Dir k)
                   then (Some (PathError ''open'' name ENOENT), s)
                   else (None, s\<lparr>files := (k, '''') # filter (\<lambda>kv. fst kv \<noteq> k) (files s)\<rparr>)))"

text \<open>
  An uploaded file as the handlers receive it from \<^verbatim>\<open>r.FormFile\<close>: the header's
  file name and size, the bytes the stream delivers, and the error that ends the
  stream when reading it fails.
\<close>

record upload =
  Filename :: string
  FileSize :: int
  content :: string
  read_err :: "error option"

text \<open>\<^verbatim>\<open>io.Copy\<close> into the created file: the bytes read are written, a read error is returned.\<close>

definition io_Copy :: "fsys \<Rightarrow> string \<Rightarrow> upload \<Rightarrow> error option \<times> fsys" where
  "io_Copy s name src =
     (let k = filepath_Clean name
      in (read_err src, s\<lparr>files := map (\<lambda>kv. if fst kv = k then (k, content src) else kv) (files s)\<rparr>))"

subsection \<open>Helpers of the application\<close>

definition isFolderEmpty :: "fsys \<Rightarrow> string \<Rightarrow> error + bool" where
  "isFolderEmpty s dirPath =
     (case os_ReadDir s dirPath of
        Inl err \<Rightarrow> Inl err
      | Inr es \<Rightarrow> Inr (length es = 0))"

definition deleteEmptyFolder :: "fsys \<Rightarrow> string \<Rightarrow> error option \<times> fsys" where
  "deleteEmptyFolder s dirPath =
     (case isFolderEmpty s dirPath of
        Inl err \<Rightarrow> (Some err, s)
      | Inr isEmpty \<Rightarrow>
          (if isEmpty then
             (case os_Remove s dirPath of
                (Some err, s') \<Rightarrow> (Some err, s')
              | (None, s') \<Rightarrow> (None, s'))
           else (None, s)))"

definition createFile :: "fsys \<Rightarrow> upload \<Rightarrow> string \<Rightarrow> error option \<times> fsys" where
  "createFile s file file_path =
     (let folder_path = filepath_Dir file_path
      in case os_MkdirAll s folder_path of
           (Some err, s1) \<Rightarrow> (Some err, s1)
         | (None, s1) \<Rightarrow>
             (case os_Create s1 file_path of
                (Some err, s2) \<Rightarrow> (Some err, s2)
              | (None, s2) \<Rightarrow>
                  (case io_Copy s2 file_path file of
                     (Some err, s3) \<Rightarrow> (Some err, s3)
                   | (None, s3) \<Rightarrow> (None, s3))))"

subsection \<open>The application: purge and handlers\<close>

text \<open>
  A deletion job is what \<^verbatim>\<open>app.background\<close> is given: the duration of its timer and the
  path and id it purges when the timer or a termination signal fires.
\<close>

record job =
  timer :: int
  job_path :: string
  job_id :: int

record app =
  db :: store
  fs :: fsys
  jobs :: "job list"

text \<open>\<^verbatim>\<open>err != nil && err.Error() != msg\<close>.\<close>

definition err_other_than :: "error option \<Rightarrow> string \<Rightarrow> bool" where
  "err_other_than err msg = (case err of None \<Rightarrow> False | Some e \<Rightarrow> err_Error e \<noteq> msg)"

definition deleteFileInBackground ::
  "time \<Rightarrow> error option \<Rightarrow> app \<Rightarrow> string \<Rightarrow> int \<Rightarrow> error option \<times> app" where
  "deleteFileInBackground now drv a file_path file_id =
     (let folder_path = filepath_Dir file_path
      in case Delete now drv (db a) file_id of
           (err1, db1) \<Rightarrow>
             (let a1 = a\<lparr>db := db1\<rparr>
              in if err_other_than err1 ''record not found'' then (err1, a1)
                 else (case os_Remove (fs a1) file_path of
                         (err2, fs2) \<Rightarrow>
                           (let a2 = a1\<lparr>fs := fs2\<rparr>
                            in if err_other_than err2
                                    (''remove '' @ file_path @ '': no such file or directory'')
                               then (err2, a2)
                               else (case deleteEmptyFolder (fs a2) folder_path of
                                       (err3, fs3) \<Rightarrow>
                                         (let a3 = a2\<lparr>fs := fs3\<rparr>
                                          in if err_other_than err3
                                                  (''open '' @ folder_path @ '': no such file or directory'')
                                             then (err3, a3)
                                             else (None, a3)))))))"

text \<open>
  What a handler receives: the authenticated user, the result of \<^verbatim>\<open>r.FormFile("file")\<close>,
  the result of \<^verbatim>\<open>strconv.ParseInt\<close> on the URL parameter \<^verbatim>\<open>id\<close> (\<open>None\<close> when it reports
  an error) and the URL parameter \<^verbatim>\<open>code\<close>.
\<close>

record request =
  user :: User
  form_file :: "error + upload"
  id_param :: "int option"
  code_param :: string

text \<open>
  What a handler writes, in order. The response helpers (\<^verbatim>\<open>notFoundResponse\<close>,
  \<^verbatim>\<open>serverErrorResponse\<close>, \<^verbatim>\<open>badRequestResponse\<close>, \<^verbatim>\<open>failedValidationResponse\<close>) are not among
  the sources; each call is recorded with its argument. \<^verbatim>\<open>WriteJSON\<close> is a call of
  \<^verbatim>\<open>writeJSON\<close> with its status and envelope, which does not fail on these values;
  \<^verbatim>\<open>Download\<close> is the streamed blob with the file name of the content disposition and
  the content length. The status line a client sees is that of the first write.
\<close>

datatype envelope =
    FileJSON File
  | FilesJSON "File list"
  | MessageJSON string

datatype response =
    WriteJSON nat envelope
  | NotFoundResponse
  | ServerErrorResponse error
  | BadRequestResponse error
  | FailedValidationResponse "(string \<times> string) list"
  | Download string nat string

text \<open>
  \<^verbatim>\<open>uploadFileHandler\<close>. \<open>t_seed\<close> is the clock reading that seeds the code generator,
  \<open>t_now\<close> the one the expiry is computed from, \<open>db_now\<close> the database's clock.
\<close>

definition uploadFileHandler ::
  "(int \<Rightarrow> rand_source) \<Rightarrow> time \<Rightarrow> time \<Rightarrow> time \<Rightarrow> error option \<Rightarrow> app \<Rightarrow> request
     \<Rightarrow> response list \<times> app" where
  "uploadFileHandler NewSource t_seed t_now db_now drv a r =
     (case form_file r of
        Inl err \<Rightarrow> ([BadRequestResponse err], a)
      | Inr handler \<Rightarrow>
          (let new_file =
                 \<lparr>ID = 0, Name = Filename handler, Size = FileSize handler,
                  Path = ''./cache/'' @ Email (user r) @ ''/'' @ Filename handler,
                  Code = generateUniqueString NewSource t_seed,
                  Expiry = t_now + 2 * Minute, CreatedAt = 0, LastUpdated = 0,
                  UserID = uID (user r)\<rparr>;
               v = ValidateFile validator_New new_file
           in if \<not> Valid v then ([FailedValidationResponse (Errors v)], a)
              else (case Insert db_now drv (db a) new_file of
                      (Inl err, db1) \<Rightarrow>
                        (if err_Error err = ''duplicate path''
                         then ([FailedValidationResponse
                                  (Errors (AddError v ''file'' ''path already exists''))],
                               a\<lparr>db := db1\<rparr>)
                         else ([ServerErrorResponse err], a\<lparr>db := db1\<rparr>))
                    | (Inr inserted, db1) \<Rightarrow>
                        (case createFile (fs a) handler (Path inserted) of
                           (Some err, fs1) \<Rightarrow>
                             ([ServerErrorResponse err], a\<lparr>db := db1, fs := fs1\<rparr>)
                         | (None, fs1) \<Rightarrow>
                             ([WriteJSON 202 (FileJSON inserted)],
                              a\<lparr>db := db1, fs := fs1,
                                jobs := jobs a @
                                  [\<lparr>timer = 30 * Second, job_path = Path inserted,
                                    job_id = ID inserted\<rparr>]\<rparr>)))))"

definition listUserFilesHandler ::
  "time \<Rightarrow> error option \<Rightarrow> app \<Rightarrow> request \<Rightarrow> response list \<times> app" where
  "listUserFilesHandler now drv a r =
     (case GetAllFromUser now drv (db a) (user r) of
        Inl err \<Rightarrow> ([ServerErrorResponse err], a)
      | Inr fs_found \<Rightarrow> ([WriteJSON 200 (FilesJSON fs_found)], a))"

definition getUserFileHandler ::
  "time \<Rightarrow> error option \<Rightarrow> app \<Rightarrow> request \<Rightarrow> response list \<times> app" where
  "getUserFileHandler now drv a r =
     (case id_param r of
        None \<Rightarrow> ([NotFoundResponse], a)
      | Some fid \<Rightarrow>
          (if fid < 1 then ([NotFoundResponse], a)
           else (case GetFromUser now drv (db a) fid (user r) of
                   Inl err \<Rightarrow>
                     (if err = ErrRecordNotFound then ([NotFoundResponse], a)
                      else ([ServerErrorResponse err], a))
                 | Inr file \<Rightarrow> ([WriteJSON 200 (FileJSON file)], a))))"


text \<open>
  \<^verbatim>\<open>deleteUserFileHandler\<close>. The branch on the error of \<^verbatim>\<open>DeleteFromUser\<close> writes the
  server error and does not return, and neither does the branch on the error of
  \<^verbatim>\<open>deleteEmptyFolder\<close>: the handler goes on with the path it was given.
\<close>

definition deleteUserFileHandler ::
  "time \<Rightarrow> error option \<Rightarrow> app \<Rightarrow> request \<Rightarrow> response list \<times> app" where
  "deleteUserFileHandler now drv a r =
     (case id_param r of
        None \<Rightarrow> ([NotFoundResponse], a)
      | Some fid \<Rightarrow>
          (if fid < 1 then ([NotFoundResponse], a)
           else (case DeleteFromUser now drv (db a) fid (user r) of
                   ((path, err1), db1) \<Rightarrow>
                     (let out1 = (case err1 of Some e \<Rightarrow> [ServerErrorResponse e] | None \<Rightarrow> [])
                      in case os_Remove (fs a) path of
                           (Some err2, fs2) \<Rightarrow>
                             (out1 @ [ServerErrorResponse err2], a\<lparr>db := db1, fs := fs2\<rparr>)
                         | (None, fs2) \<Rightarrow>
                             (case deleteEmptyFolder fs2 (filepath_Dir path) of
                                (err3, fs3) \<Rightarrow>
                                  (let out3 = (case err3 of Some e \<Rightarrow> [ServerErrorResponse e]
                                                          | None \<Rightarrow> [])
                                   in (out1 @ out3 @
                                         [WriteJSON 200 (MessageJSON ''file successfully deleted'')],
                                       a\<lparr>db := db1, fs := fs3\<rparr>)))))))"

text \<open>
  \<^verbatim>\<open>os.Open\<close> fails on a name that does not exist; it opens a regular file and also a
  directory.
\<close>

datatype opened = RegularFile string | Directory

definition os_Open :: "fsys \<Rightarrow> string \<Rightarrow> error + opened" where
  "os_Open s name =
     (let k = filepath_Clean name
      in if name = [] then Inl (PathError ''open'' name ENOENT)
         else (case walk_error s name of
                 Some errno \<Rightarrow> Inl (PathError ''open'' name errno)
               | None \<Rightarrow>
                   (case map_of (files s) k of
                      Some bytes \<Rightarrow> Inr (RegularFile bytes)
                    | None \<Rightarrow>
                        (if is_dir s k then Inr Directory
                         else Inl (PathError ''open'' name ENOENT)))))"

text \<open>
  \<^verbatim>\<open>getFileFromCodeHandler\<close>. \<^verbatim>\<open>Stat\<close> succeeds on what was opened; the copy of a
  directory fails on its first read, before anything is written. Writing to the client
  is taken not to fail.
\<close>

definition getFileFromCodeHandler ::
  "time \<Rightarrow> error option \<Rightarrow> app \<Rightarrow> request \<Rightarrow> response list \<times> app" where
  "getFileFromCodeHandler now drv a r =
     (case GetFromCode now drv (db a) (code_param r) of
        Inl err \<Rightarrow>
          (if err = ErrRecordNotFound then ([NotFoundResponse], a)
           else ([ServerErrorResponse err], a))
      | Inr file_data \<Rightarrow>
          (case os_Open (fs a) (Path file_data) of
             Inl err \<Rightarrow> ([ServerErrorResponse err], a)
           | Inr (RegularFile bytes) \<Rightarrow>
               ([Download (Name file_data) (length bytes) bytes], a)
           | Inr Directory \<Rightarrow>
               ([ServerErrorResponse (PathError ''read'' (Path file_data) ''is a directory'')],
                a)))"

subsection \<open>Notions the properties are stated with\<close>

text \<open>The store without the rows whose expiry has passed at \<open>now\<close>.\<close>

definition drop_expired :: "time \<Rightarrow> store \<Rightarrow> store" where
  "drop_expired now d = d\<lparr>rows := filter (\<lambda>r. Expiry r > now) (rows d)\<rparr>"






subsection \<open>A sample state\<close>

text \<open>
  Two users and a state for concrete runs: Alice owns two files, one whose expiry at
  two minutes has passed at the five minutes the runs take as the current time and
  one that is live until ten minutes; both blobs are on disk.
\<close>

definition alice :: User where
  "alice = \<lparr>uID = 1, Email = ''alice@example.org''\<rparr>"

definition bob :: User where
  "bob = \<lparr>uID = 2, Email = ''bob@example.org''\<rparr>"

definition old_row :: File where
  "old_row = \<lparr>ID = 1, Name = ''old.txt'', Size = 3,
              Path = ''./cache/alice@example.org/old.txt'', Code = ''oldcode1'',
              Expiry = 2 * Minute, CreatedAt = 0, LastUpdated = 0, UserID = 1\<rparr>"

definition new_row :: File where
  "new_row = \<lparr>ID = 2, Name = ''new.txt'', Size = 3,
              Path = ''./cache/alice@example.org/new.txt'', Code = ''newcode2'',
              Expiry = 10 * Minute, CreatedAt = 4 * Minute, LastUpdated = 4 * Minute,
              UserID = 1\<rparr>"

definition sample_app :: app where
  "sample_app =
     \<lparr>db = \<lparr>rows = [old_row, new_row], seq = 2\<rparr>,
      fs = \<lparr>files = [(''cache/alice@example.org/old.txt'', ''old''),
                     (''cache/alice@example.org/new.txt'', ''new'')],
            dirs = [''.'', ''cache'', ''cache/alice@example.org'']\<rparr>,
      jobs = []\<rparr>"

definition upload_a :: upload where
  "upload_a = \<lparr>Filename = ''a.txt'', FileSize = 3, content = ''abc'', read_err = None\<rparr>"

text \<open>A request of a user with no file, no id and no code; the runs fill in what they need.\<close>

definition request_of :: "User \<Rightarrow> request" where
  "request_of u =
     \<lparr>user = u, form_file = Inl (OtherError ''http: no such file''), id_param = None,
      code_param = ''''\<rparr>"



text \<open>
  Bob's upload of \<^verbatim>\<open>a.txt\<close> into the sample state, with the code generator seeded at 5 and
  both clocks at five minutes: the record returned and the state left.
\<close>

definition uploaded_a :: File where
  "uploaded_a = \<lparr>ID = 3, Name = ''a.txt'', Size = 3, Path = ''./cache/bob@example.org/a.txt'',
                 Code = ''fmtAHOV3'', Expiry = 7 * Minute, CreatedAt = 5 * Minute,
                 LastUpdated = 5 * Minute, UserID = 2\<rparr>"

definition after_upload :: app where
  "after_upload =
     \<lparr>db = \<lparr>rows = [old_row, new_row, uploaded_a], seq = 3\<rparr>,
      fs = \<lparr>files = [(''cache/bob@example.org/a.txt'', ''abc''),
                     (''cache/alice@example.org/old.txt'', ''old''),
                     (''cache/alice@example.org/new.txt'', ''new'')],
            dirs = [''.'', ''cache'', ''cache/alice@example.org'', ''cache/bob@example.org'']\<rparr>,
      jobs = [\<lparr>timer = 30 * Second, job_path = ''./cache/bob@example.org/a.txt'',
               job_id = 3\<rparr>]\<rparr>"



text \<open>The sample state with its blobs lost.\<close>

definition no_blobs :: app where
  "no_blobs = sample_app\<lparr>fs := \<lparr>files = [], dirs = [''.'']\<rparr>\<rparr>"

section \<open>Properties\<close>

subsection \<open>Validation\<close>

lemma Valid_ValidateFile_iff:
  "Valid (ValidateFile validator_New f) \<longleftrightarrow>
     length (Name f) \<le> 50 \<and> Size f \<le> 1000000 \<and> length (Code f) = 8"
  by (simp add: ValidateFile_def Check_def AddError_def Valid_def validator_New_def Let_def)

lemma Errors_Valid: "Valid v \<Longrightarrow> Errors v = []"
  by (simp add: Valid_def)

text \<open>
  Claim C10. \<^verbatim>\<open>ValidateFile\<close> on a fresh validator accepts a file exactly when its name
  has at most 50 bytes, its size is at most 1,000,000 and its code has exactly 8 bytes.
  There is no lower bound on the name or on the size: a file with an empty name and a
  size of zero or below is accepted when its code has 8 bytes.
\<close>

theorem ValidateFile_upper_bounds_only:
  "(Valid (ValidateFile validator_New f) \<longleftrightarrow>
      length (Name f) \<le> 50 \<and> Size f \<le> 1000000 \<and> length (Code f) = 8) \<and>
   (Name f = '''' \<and> Size f \<le> 0 \<and> length (Code f) = 8 \<longrightarrow>
      Valid (ValidateFile validator_New f))"
  using Valid_ValidateFile_iff [of f] by auto

theorem ValidateFile_upper_bounds_only_witness:
  "Valid (ValidateFile validator_New
     \<lparr>ID = 0, Name = '''', Size = - 5, Path = ''./cache/alice@example.org/'',
      Code = ''abcdefgh'', Expiry = 0, CreatedAt = 0, LastUpdated = 0, UserID = 1\<rparr>)"
  using ValidateFile_upper_bounds_only
    [of "\<lparr>ID = 0, Name = '''', Size = - 5, Path = ''./cache/alice@example.org/'',
          Code = ''abcdefgh'', Expiry = 0, CreatedAt = 0, LastUpdated = 0, UserID = 1\<rparr>"]
  by simp

subsection \<open>The code generator\<close>

lemma length_letterRunes: "length letterRunes = 62"
  by (simp add: letterRunes_def)

lemma distinct_letterRunes: "distinct letterRunes"
  by (simp add: letterRunes_def)

lemma digits_set: "set ''1234567890'' = set ''0123456789''"
  by (simp add: insert_commute)

lemma letterRunes_alphabet:
  "set letterRunes =
     set ''abcdefghijklmnopqrstuvwxyz'' \<union> set ''ABCDEFGHIJKLMNOPQRSTUVWXYZ'' \<union>
     set ''0123456789''"
proof -
  have "letterRunes =
          ''abcdefghijklmnopqrstuvwxyz'' @ ''ABCDEFGHIJKLMNOPQRSTUVWXYZ'' @ ''1234567890''"
    by (simp add: letterRunes_def)
  then have "set letterRunes =
     set ''abcdefghijklmnopqrstuvwxyz'' \<union> set ''ABCDEFGHIJKLMNOPQRSTUVWXYZ'' \<union>
     set ''1234567890''"
    by (metis set_append Un_assoc)
  then show ?thesis by (simp only: digits_set)
qed

lemma length_generateUniqueString: "length (generateUniqueString NewSource now) = 8"
  by (simp add: generateUniqueString_def)

lemma nth_generateUniqueString:
  "i < 8 \<Longrightarrow> generateUniqueString NewSource now ! i = letterRunes ! (NewSource now i mod 62)"
  by (simp add: generateUniqueString_def Intn_def length_letterRunes)

lemma set_generateUniqueString: "set (generateUniqueString NewSource now) \<subseteq> set letterRunes"
  by (auto simp: generateUniqueString_def Intn_def length_letterRunes)

lemma generateUniqueString_sample_5: "generateUniqueString sample_source 5 = ''fmtAHOV3''"
  by (simp add: generateUniqueString_def sample_source_def Intn_def letterRunes_def upt_rec)

text \<open>
  Claim C9. Whatever the source and the seed, the generated string has exactly 8
  characters and each of them is one of \<^verbatim>\<open>letterRunes\<close>, which are 62 distinct symbols:
  the lowercase letters, the uppercase letters and the digits.
\<close>

theorem generateUniqueString_shape:
  "length (generateUniqueString NewSource now) = 8 \<and>
   set (generateUniqueString NewSource now) \<subseteq> set letterRunes \<and>
   length letterRunes = 62 \<and> distinct letterRunes \<and>
   set letterRunes =
     set ''abcdefghijklmnopqrstuvwxyz'' \<union> set ''ABCDEFGHIJKLMNOPQRSTUVWXYZ'' \<union>
     set ''0123456789''"
  using length_generateUniqueString set_generateUniqueString length_letterRunes
    distinct_letterRunes letterRunes_alphabet by blast

theorem generateUniqueString_shape_witness:
  "generateUniqueString sample_source 5 = ''fmtAHOV3'' \<and>
   length (generateUniqueString sample_source 5) = 8 \<and>
   set (generateUniqueString sample_source 5) \<subseteq> set letterRunes"
  using generateUniqueString_shape [of sample_source 5] generateUniqueString_sample_5
  by simp

subsection \<open>Liveness in the queries\<close>

lemma QueryRow_Inr_set: "QueryRow drv rs = Inr r \<Longrightarrow> r \<in> set rs"
  by (auto simp: QueryRow_def split: option.splits list.splits)

lemma Expiry_scan8: "Expiry (scan8 r) = Expiry r"
  by (simp add: scan8_def)

lemma GetFromUser_live: "GetFromUser now drv d fid u = Inr f \<Longrightarrow> now < Expiry f"
  by (auto simp: GetFromUser_def Expiry_scan8 split: if_splits sum.splits
        dest!: QueryRow_Inr_set)

lemma GetFromCode_live: "GetFromCode now drv d code = Inr f \<Longrightarrow> now < Expiry f"
  by (auto simp: GetFromCode_def Expiry_scan8 split: if_splits sum.splits
        dest!: QueryRow_Inr_set)

lemma GetAllFromUser_live:
  "GetAllFromUser now drv d u = Inr found \<Longrightarrow> f \<in> set found \<Longrightarrow> now < Expiry f"
  by (auto simp: GetAllFromUser_def Expiry_scan8 split: option.splits)

lemma filter_live_conj:
  "filter (\<lambda>r. P r \<and> Expiry r > now) (filter (\<lambda>r. Expiry r > now) rs) =
   filter (\<lambda>r. P r \<and> Expiry r > now) rs"
  by (induction rs) auto

lemma rows_drop_expired: "rows (drop_expired now d) = filter (\<lambda>r. Expiry r > now) (rows d)"
  by (simp add: drop_expired_def)

lemma GetFromUser_drop_expired:
  "GetFromUser now drv (drop_expired now d) fid u = GetFromUser now drv d fid u"
  unfolding GetFromUser_def rows_drop_expired
  using filter_live_conj [of "\<lambda>r. ID r = fid \<and> UserID r = uID u" now "rows d"]
  by (simp only: conj_assoc)

lemma GetFromCode_drop_expired:
  "GetFromCode now drv (drop_expired now d) code = GetFromCode now drv d code"
  unfolding GetFromCode_def rows_drop_expired
  by (simp only: filter_live_conj)

lemma GetAllFromUser_drop_expired:
  "GetAllFromUser now drv (drop_expired now d) u = GetAllFromUser now drv d u"
  unfolding GetAllFromUser_def rows_drop_expired
  by (simp only: filter_live_conj)

text \<open>
  Claim C4. A record whose expiry is less than or equal to the time of the query is
  returned neither by \<^verbatim>\<open>GetFromUser\<close> nor by \<^verbatim>\<open>GetFromCode\<close> and is not in the list of
  \<^verbatim>\<open>GetAllFromUser\<close>; each of the three gives the result it gives on the store with every
  such record removed. None of them reads the blob store, so this holds whether or not
  the blob still exists.
\<close>

theorem liveness_filtering:
  assumes "Expiry r \<le> now"
  shows "GetFromUser now drv d fid u \<noteq> Inr (scan8 r) \<and>
         GetFromCode now drv d code \<noteq> Inr (scan8 r) \<and>
         (\<forall>found. GetAllFromUser now drv d u = Inr found \<longrightarrow> scan8 r \<notin> set found) \<and>
         GetFromUser now drv (drop_expired now d) fid u = GetFromUser now drv d fid u \<and>
         GetFromCode now drv (drop_expired now d) code = GetFromCode now drv d code \<and>
         GetAllFromUser now drv (drop_expired now d) u = GetAllFromUser now drv d u"
proof -
  have e: "\<not> now < Expiry (scan8 r)"
    using assms by (simp add: Expiry_scan8)
  have "GetFromUser now drv d fid u \<noteq> Inr (scan8 r)"
    using e GetFromUser_live [of now drv d fid u "scan8 r"] by blast
  moreover have "GetFromCode now drv d code \<noteq> Inr (scan8 r)"
    using e GetFromCode_live [of now drv d code "scan8 r"] by blast
  moreover have "\<forall>found. GetAllFromUser now drv d u = Inr found \<longrightarrow> scan8 r \<notin> set found"
    using e GetAllFromUser_live [of now drv d u _ "scan8 r"] by blast
  ultimately show ?thesis
    by (simp only: GetFromUser_drop_expired GetFromCode_drop_expired
          GetAllFromUser_drop_expired simp_thms)
qed

theorem liveness_filtering_witness:
  "Expiry old_row \<le> 5 * Minute \<and>
   GetFromUser (5 * Minute) None (db sample_app) 1 alice = Inl ErrRecordNotFound \<and>
   GetFromCode (5 * Minute) None (db sample_app) ''oldcode1'' = Inl ErrRecordNotFound \<and>
   GetAllFromUser (5 * Minute) None (db sample_app) alice = Inr [scan8 new_row] \<and>
   scan8 old_row \<notin> set [scan8 new_row] \<and>
   GetFromCode (5 * Minute) None (db sample_app) ''newcode2'' = Inr (scan8 new_row)"
proof -
  have h: "Expiry old_row \<le> 5 * Minute"
    by (simp add: old_row_def Minute_def Second_def)
  have l: "GetAllFromUser (5 * Minute) None (db sample_app) alice = Inr [scan8 new_row]"
    by (simp add: GetAllFromUser_def sample_app_def old_row_def new_row_def alice_def
          Minute_def Second_def)
  show ?thesis
    using h l liveness_filtering [OF h, of None "db sample_app" 1 alice "''oldcode1''"]
    by (simp add: GetFromUser_def GetFromCode_def QueryRow_def no_rows_not_found_def
          sample_app_def old_row_def new_row_def alice_def Minute_def Second_def)
qed

subsection \<open>Replacement\<close>



lemma timestamp0_of_whole:
  assumes "t mod Second = 0"
  shows "timestamp0 t = t"
proof -
  from assms have "1000000000 dvd t"
    by (simp add: Second_def mod_0_imp_dvd)
  then obtain q where "t = 1000000000 * q" ..
  then show ?thesis
    by (simp add: timestamp0_def Second_def)
qed






lemmas sample_defs = sample_app_def old_row_def new_row_def alice_def bob_def upload_a_def
  request_of_def Minute_def Second_def

lemmas path_defs = filepath_Clean_def filepath_Dir_def clean_step_def

lemmas walk_defs = walk_error_def render_path_def is_dir_def is_file_def fixed_dir_def



lemma Clean_folder: "filepath_Clean ''cache/alice@example.org'' = ''cache/alice@example.org''"
  by (simp add: path_defs)


















subsection \<open>The purge\<close>





































lemmas purge_defs = deleteFileInBackground_def Delete_def os_Remove_def deleteEmptyFolder_def
  isFolderEmpty_def os_ReadDir_def err_other_than_def entries_def ENOENT_def ENOTDIR_def
  walk_defs Let_def





text \<open>
  The purge does report the errors it does not recognise: an error of the driver, a path
  that names a directory with entries, and a path that leads through a regular file.
\<close>

lemma purge_reports_driver_error:
  assumes "1 \<le> fid" and "err_Error e \<noteq> ''record not found''"
  shows "deleteFileInBackground now (Some e) a p fid = (Some e, a)"
  using assms by (simp add: deleteFileInBackground_def Delete_def err_other_than_def Let_def)

lemma purge_reports_directory_not_empty:
  "deleteFileInBackground (5 * Minute) None sample_app ''cache/alice@example.org'' 9 =
     (Some (PathError ''remove'' ''cache/alice@example.org'' ''directory not empty''),
      sample_app)"
  by (simp add: purge_defs Clean_folder path_defs sample_defs)

lemma purge_reports_not_a_directory:
  "deleteFileInBackground (5 * Minute) None sample_app
     ''./cache/alice@example.org/new.txt/x/y'' 9 =
     (Some (PathError ''remove'' ''./cache/alice@example.org/new.txt/x/y'' ''not a directory''),
      sample_app)"
  by (simp add: purge_defs path_defs sample_defs)

subsection \<open>Creation\<close>

lemma Clean_a: "filepath_Clean ''./cache/bob@example.org/a.txt'' = ''cache/bob@example.org/a.txt''"
  by (simp add: path_defs)

lemma Dir_a: "filepath_Dir ''./cache/bob@example.org/a.txt'' = ''cache/bob@example.org''"
  by (simp add: path_defs)

lemma Clean_bob: "filepath_Clean ''cache/bob@example.org'' = ''cache/bob@example.org''"
  by (simp add: path_defs)

lemma Dir_a_clean: "filepath_Dir ''cache/bob@example.org/a.txt'' = ''cache/bob@example.org''"
  by (simp add: path_defs)

lemma prefixes_bob: "path_prefixes ''cache/bob@example.org'' = [''cache'', ''cache/bob@example.org'']"
  by (simp add: path_prefixes_def upt_rec)

lemma createFile_a:
  "createFile (fs sample_app) upload_a ''./cache/bob@example.org/a.txt'' = (None, fs after_upload)"
  by (simp add: createFile_def os_MkdirAll_def os_Create_def io_Copy_def walk_defs
        clean_step_def Let_def Clean_a Dir_a Clean_bob Dir_a_clean prefixes_bob sample_app_def after_upload_def
        upload_a_def)

lemma upload_a_eval:
  "uploadFileHandler sample_source 5 (5 * Minute) (5 * Minute) None sample_app
     ((request_of bob)\<lparr>form_file := Inr upload_a\<rparr>) =
   ([WriteJSON 202 (FileJSON uploaded_a)], after_upload)"
proof -
  have v: "Valid (ValidateFile validator_New
             \<lparr>ID = 0, Name = ''a.txt'', Size = 3, Path = ''./cache/bob@example.org/a.txt'',
              Code = ''fmtAHOV3'', Expiry = 5 * Minute + 2 * Minute, CreatedAt = 0,
              LastUpdated = 0, UserID = 2\<rparr>)"
    by (simp add: Valid_ValidateFile_iff)
  have i: "Insert (5 * Minute) None (db sample_app)
             \<lparr>ID = 0, Name = ''a.txt'', Size = 3, Path = ''./cache/bob@example.org/a.txt'',
              Code = ''fmtAHOV3'', Expiry = 5 * Minute + 2 * Minute, CreatedAt = 0,
              LastUpdated = 0, UserID = 2\<rparr> = (Inr uploaded_a, db after_upload)"
    by (simp add: Insert_def insert_returning_def Let_def timestamp0_def sample_app_def
          after_upload_def uploaded_a_def old_row_def new_row_def Minute_def Second_def)
  have p: "Path uploaded_a = ''./cache/bob@example.org/a.txt''" "ID uploaded_a = 3"
    by (simp_all add: uploaded_a_def)
  show ?thesis
    using v i createFile_a p
    by (simp add: uploadFileHandler_def Let_def generateUniqueString_sample_5 request_of_def
          bob_def upload_a_def)
       (simp add: sample_app_def after_upload_def)
qed

lemma Insert_duplicate_path:
  assumes "list_ex (\<lambda>r. Path r = Path file) (rows d)"
  shows "Insert db_now None d file = (Inl ErrDuplicatePath, d\<lparr>seq := seq d + 1\<rparr>)"
  using assms by (simp add: Insert_def insert_returning_def Let_def)

lemma Insert_Inr:
  "Insert db_now drv d file = (Inr f, d') \<Longrightarrow>
     f = file\<lparr>ID := seq d + 1, CreatedAt := timestamp0 db_now,
              LastUpdated := timestamp0 db_now\<rparr> \<and>
     rows d' = rows d @ [f\<lparr>Expiry := timestamp0 (Expiry file)\<rparr>]"
  by (auto simp: Insert_def insert_returning_def Let_def split: option.splits if_splits)

lemma uploadFileHandler_duplicate_path:
  assumes ff: "form_file r = Inr h"
      and nm: "length (Filename h) \<le> 50" and sz: "FileSize h \<le> 1000000"
      and dup: "list_ex (\<lambda>x. Path x = ''./cache/'' @ Email (user r) @ ''/'' @ Filename h) (rows (db a))"
  shows "uploadFileHandler NewSource t_seed t_now db_now None a r =
           ([FailedValidationResponse [(''file'', ''path already exists'')]],
            a\<lparr>db := (db a)\<lparr>seq := seq (db a) + 1\<rparr>\<rparr>)"
proof -
  let ?f = "\<lparr>ID = 0, Name = Filename h, Size = FileSize h,
             Path = ''./cache/'' @ Email (user r) @ ''/'' @ Filename h,
             Code = generateUniqueString NewSource t_seed,
             Expiry = t_now + 2 * Minute, CreatedAt = 0, LastUpdated = 0,
             UserID = uID (user r)\<rparr>"
  have v: "Valid (ValidateFile validator_New ?f)"
    using nm sz by (simp add: Valid_ValidateFile_iff length_generateUniqueString)
  have e: "Errors (ValidateFile validator_New ?f) = []"
    using v by (rule Errors_Valid)
  have i: "Insert db_now None (db a) ?f = (Inl ErrDuplicatePath, (db a)\<lparr>seq := seq (db a) + 1\<rparr>)"
    using dup by (intro Insert_duplicate_path) simp
  show ?thesis
    using ff v i e by (simp add: uploadFileHandler_def Let_def AddError_def)
qed

lemma uploadFileHandler_blob_after_row:
  assumes "uploadFileHandler NewSource t_seed t_now db_now drv a r = (out, a')"
      and "fs a' \<noteq> fs a"
  shows "\<exists>f. rows (db a') = rows (db a) @ [f]"
  using assms
  by (auto simp: uploadFileHandler_def Let_def
        split: sum.splits if_splits prod.splits option.splits dest!: Insert_Inr)

text \<open>
  Claim C5. \<^verbatim>\<open>uploadFileHandler\<close> inserts the record before it writes the blob. When the
  upload is valid, the statement runs and a row of the store already has the path,
  \<^verbatim>\<open>Insert\<close> returns \<^verbatim>\<open>ErrDuplicatePath\<close>, the handler answers with the validation error
  \<^verbatim>\<open>path already exists\<close>, and the rows, the blob store and the jobs are as before: no
  blob write is attempted and the first record and its blob are untouched. Whatever
  the driver does, the handler changes the blob store only in a run that has appended
  the new row.
\<close>

theorem upload_duplicate_path:
  assumes "form_file r = Inr h"
      and "length (Filename h) \<le> 50" and "FileSize h \<le> 1000000"
      and "list_ex (\<lambda>x. Path x = ''./cache/'' @ Email (user r) @ ''/'' @ Filename h) (rows (db a))"
      and "uploadFileHandler NewSource t_seed t_now db_now None a r = (out, a')"
  shows "Insert db_now None (db a)
           \<lparr>ID = 0, Name = Filename h, Size = FileSize h,
            Path = ''./cache/'' @ Email (user r) @ ''/'' @ Filename h,
            Code = generateUniqueString NewSource t_seed,
            Expiry = t_now + 2 * Minute, CreatedAt = 0, LastUpdated = 0,
            UserID = uID (user r)\<rparr> = (Inl ErrDuplicatePath, (db a)\<lparr>seq := seq (db a) + 1\<rparr>) \<and>
         out = [FailedValidationResponse [(''file'', ''path already exists'')]] \<and>
         rows (db a') = rows (db a) \<and> fs a' = fs a \<and> jobs a' = jobs a \<and>
         (\<forall>drv b c. uploadFileHandler NewSource t_seed t_now db_now drv a r = (b, c) \<and> fs c \<noteq> fs a
            \<longrightarrow> (\<exists>f. rows (db c) = rows (db a) @ [f]))"
proof -
  have "uploadFileHandler NewSource t_seed t_now db_now None a r =
           ([FailedValidationResponse [(''file'', ''path already exists'')]],
            a\<lparr>db := (db a)\<lparr>seq := seq (db a) + 1\<rparr>\<rparr>)"
    using assms(1-4) by (rule uploadFileHandler_duplicate_path)
  then have "out = [FailedValidationResponse [(''file'', ''path already exists'')]]"
    and "a' = a\<lparr>db := (db a)\<lparr>seq := seq (db a) + 1\<rparr>\<rparr>"
    using assms(5) by simp_all
  moreover have "Insert db_now None (db a)
           \<lparr>ID = 0, Name = Filename h, Size = FileSize h,
            Path = ''./cache/'' @ Email (user r) @ ''/'' @ Filename h,
            Code = generateUniqueString NewSource t_seed,
            Expiry = t_now + 2 * Minute, CreatedAt = 0, LastUpdated = 0,
            UserID = uID (user r)\<rparr> = (Inl ErrDuplicatePath, (db a)\<lparr>seq := seq (db a) + 1\<rparr>)"
    using assms(4) by (intro Insert_duplicate_path) simp
  ultimately show ?thesis
    using uploadFileHandler_blob_after_row [of NewSource t_seed t_now db_now _ a r]
    by simp blast
qed

theorem upload_duplicate_path_witness:
  "uploadFileHandler sample_source 5 (5 * Minute) (5 * Minute) None sample_app
     ((request_of alice)\<lparr>form_file := Inr (upload_a\<lparr>Filename := ''new.txt''\<rparr>)\<rparr>) =
     ([FailedValidationResponse [(''file'', ''path already exists'')]],
      sample_app\<lparr>db := \<lparr>rows = [old_row, new_row], seq = 3\<rparr>\<rparr>)"
proof -
  let ?r = "(request_of alice)\<lparr>form_file := Inr (upload_a\<lparr>Filename := ''new.txt''\<rparr>)\<rparr>"
  let ?h = "upload_a\<lparr>Filename := ''new.txt''\<rparr>"
  obtain out a' where run: "uploadFileHandler sample_source 5 (5 * Minute) (5 * Minute) None sample_app ?r = (out, a')"
    by (cases "uploadFileHandler sample_source 5 (5 * Minute) (5 * Minute) None sample_app ?r")
  have h1: "form_file ?r = Inr ?h" by (simp add: request_of_def)
  have h2: "length (Filename ?h) \<le> 50" by simp
  have h3: "FileSize ?h \<le> 1000000" by (simp add: upload_a_def)
  have h4: "list_ex (\<lambda>x. Path x = ''./cache/'' @ Email (user ?r) @ ''/'' @ Filename ?h) (rows (db sample_app))"
    by (simp add: request_of_def alice_def sample_app_def old_row_def new_row_def)
  have "out = [FailedValidationResponse [(''file'', ''path already exists'')]]"
    and "rows (db a') = rows (db sample_app)" and "fs a' = fs sample_app" and "jobs a' = jobs sample_app"
    and "Insert (5 * Minute) None (db sample_app)
           \<lparr>ID = 0, Name = Filename ?h, Size = FileSize ?h,
            Path = ''./cache/'' @ Email (user ?r) @ ''/'' @ Filename ?h,
            Code = generateUniqueString sample_source 5,
            Expiry = 5 * Minute + 2 * Minute, CreatedAt = 0, LastUpdated = 0,
            UserID = uID (user ?r)\<rparr> = (Inl ErrDuplicatePath, (db sample_app)\<lparr>seq := seq (db sample_app) + 1\<rparr>)"
    using upload_duplicate_path [OF h1 h2 h3 h4 run] by blast+
  then show ?thesis
    using run h1
    by (simp add: uploadFileHandler_def Let_def Valid_ValidateFile_iff length_generateUniqueString
          upload_a_def Errors_Valid AddError_def)
       (simp add: sample_app_def)
qed

text \<open>
  Claim C3 states that the timer of the deletion job equals the validity window of the
  record. The code arms it with 30 seconds while the expiry is two minutes after the
  clock reading: for every upload that succeeds, the job appended has a timer of 30
  seconds, the record's expiry lies two minutes ahead, and 30 seconds is less.
\<close>

theorem upload_timer_shorter_than_lifetime:
  assumes "uploadFileHandler NewSource t_seed t_now db_now drv a r =
             (WriteJSON st (FileJSON f) # rest, a')"
  shows "jobs a' = jobs a @ [\<lparr>timer = 30 * Second, job_path = Path f, job_id = ID f\<rparr>] \<and>
         Expiry f - t_now = 2 * Minute \<and> 30 * Second < 2 * Minute"
  using assms
  by (auto simp: uploadFileHandler_def Let_def Minute_def Second_def
        split: sum.splits if_splits prod.splits option.splits dest!: Insert_Inr)

theorem upload_timer_shorter_than_lifetime_witness:
  "uploadFileHandler sample_source 5 (5 * Minute) (5 * Minute) None sample_app
     ((request_of bob)\<lparr>form_file := Inr upload_a\<rparr>) =
     ([WriteJSON 202 (FileJSON uploaded_a)], after_upload) \<and>
   jobs after_upload =
     jobs sample_app @ [\<lparr>timer = 30 * Second, job_path = Path uploaded_a, job_id = ID uploaded_a\<rparr>] \<and>
   Expiry uploaded_a - 5 * Minute = 2 * Minute \<and> 30 * Second < 2 * Minute"
  using upload_timer_shorter_than_lifetime [OF upload_a_eval] upload_a_eval by simp

subsection \<open>Explicit delete\<close>

lemma os_Remove_empty: "os_Remove s [] = (Some (PathError ''remove'' [] ENOENT), s)"
  by (simp add: os_Remove_def)

text \<open>
  Claim C2 states that an explicit delete of a record that is absent, expired or owned
  by another user yields not found. The code answers with two server errors: for an id
  of at least 1 with no live row of the requesting user, \<^verbatim>\<open>DeleteFromUser\<close> returns
  \<^verbatim>\<open>sql.ErrNoRows\<close> as it is, the handler reports it as a server error and goes on to
  remove the empty path, which it reports as a server error too. The state is unchanged.
\<close>

theorem delete_request_without_row_is_server_error:
  assumes "id_param r = Some fid" and "1 \<le> fid"
      and "filter (\<lambda>x. ID x = fid \<and> UserID x = uID (user r) \<and> Expiry x > now) (rows (db a)) = []"
  shows "deleteUserFileHandler now None a r =
           ([ServerErrorResponse ErrNoRows, ServerErrorResponse (PathError ''remove'' [] ENOENT)], a)"
  using assms
  by (simp add: deleteUserFileHandler_def DeleteFromUser_def QueryRow_def os_Remove_empty Let_def)

theorem delete_request_without_row_is_server_error_witness:
  "deleteUserFileHandler (5 * Minute) None sample_app ((request_of bob)\<lparr>id_param := Some 2\<rparr>) =
     ([ServerErrorResponse ErrNoRows, ServerErrorResponse (PathError ''remove'' [] ENOENT)], sample_app) \<and>
   deleteUserFileHandler (5 * Minute) None sample_app ((request_of alice)\<lparr>id_param := Some 1\<rparr>) =
     ([ServerErrorResponse ErrNoRows, ServerErrorResponse (PathError ''remove'' [] ENOENT)], sample_app) \<and>
   deleteUserFileHandler (5 * Minute) None sample_app ((request_of alice)\<lparr>id_param := Some 7\<rparr>) =
     ([ServerErrorResponse ErrNoRows, ServerErrorResponse (PathError ''remove'' [] ENOENT)], sample_app) \<and>
   getUserFileHandler (5 * Minute) None sample_app ((request_of bob)\<lparr>id_param := Some 2\<rparr>) =
     ([NotFoundResponse], sample_app)"
proof -
  have "deleteUserFileHandler (5 * Minute) None sample_app ((request_of bob)\<lparr>id_param := Some 2\<rparr>) =
     ([ServerErrorResponse ErrNoRows, ServerErrorResponse (PathError ''remove'' [] ENOENT)], sample_app)"
    by (rule delete_request_without_row_is_server_error [where fid = 2])
       (simp_all add: sample_defs)
  moreover have "deleteUserFileHandler (5 * Minute) None sample_app ((request_of alice)\<lparr>id_param := Some 1\<rparr>) =
     ([ServerErrorResponse ErrNoRows, ServerErrorResponse (PathError ''remove'' [] ENOENT)], sample_app)"
    by (rule delete_request_without_row_is_server_error [where fid = 1])
       (simp_all add: sample_defs)
  moreover have "deleteUserFileHandler (5 * Minute) None sample_app ((request_of alice)\<lparr>id_param := Some 7\<rparr>) =
     ([ServerErrorResponse ErrNoRows, ServerErrorResponse (PathError ''remove'' [] ENOENT)], sample_app)"
    by (rule delete_request_without_row_is_server_error [where fid = 7])
       (simp_all add: sample_defs)
  moreover have "getUserFileHandler (5 * Minute) None sample_app ((request_of bob)\<lparr>id_param := Some 2\<rparr>) =
     ([NotFoundResponse], sample_app)"
    by (simp add: getUserFileHandler_def GetFromUser_def QueryRow_def no_rows_not_found_def
          sample_defs)
  ultimately show ?thesis by simp
qed

subsection \<open>Retrieval\<close>

lemma getFileFromCodeHandler_blob_missing:
  assumes "GetFromCode now drv (db a) (code_param r) = Inr f"
      and "\<not> is_file (fs a) (filepath_Clean (Path f))"
  shows "\<exists>e. getFileFromCodeHandler now drv a r = ([ServerErrorResponse e], a)"
  using assms
  by (auto simp: getFileFromCodeHandler_def os_Open_def is_file_def Let_def
        split: opened.splits option.splits)

lemma getUserFileHandler_ignores_blobs:
  assumes "id_param r = Some fid" and "GetFromUser now drv (db a) fid (user r) = Inr f"
  shows "getUserFileHandler now drv a r = ([WriteJSON 200 (FileJSON f)], a)"
  using assms
  by (auto simp: getUserFileHandler_def GetFromUser_def split: if_splits)

text \<open>
  Claim C7, as amended. When retrieval by public code resolves a live record and no blob
  is at the recorded path, the handler answers with a server error and nothing else,
  so never with not found. Retrieval by owner and id returns the record's metadata with
  status 200 and does not consult the blob store, whether or not the blob exists.
\<close>

theorem retrieval_blob_missing:
  "(GetFromCode now drv (db a) (code_param r) = Inr f \<and>
    \<not> is_file (fs a) (filepath_Clean (Path f)) \<longrightarrow>
      (\<exists>e. getFileFromCodeHandler now drv a r = ([ServerErrorResponse e], a))) \<and>
   (id_param r = Some fid \<and> GetFromUser now drv (db a) fid (user r) = Inr g \<longrightarrow>
      getUserFileHandler now drv a r = ([WriteJSON 200 (FileJSON g)], a))"
  using getFileFromCodeHandler_blob_missing [of now drv a r f]
    getUserFileHandler_ignores_blobs [of r fid now drv a g]
  by blast

lemma GetFromCode_new:
  "GetFromCode (5 * Minute) None (db no_blobs) ''newcode2'' = Inr (scan8 new_row)"
  by (simp add: GetFromCode_def QueryRow_def no_blobs_def sample_defs)

lemma GetFromUser_new:
  "GetFromUser (5 * Minute) None (db no_blobs) 2 alice = Inr (scan8 new_row)"
  by (simp add: GetFromUser_def QueryRow_def no_blobs_def sample_defs)

lemma no_blob_new: "\<not> is_file (fs no_blobs) (filepath_Clean (Path (scan8 new_row)))"
  by (simp add: is_file_def no_blobs_def)

lemma Path_scan8_new: "Path (scan8 new_row) = ''./cache/alice@example.org/new.txt''"
  by (simp add: scan8_def new_row_def)

lemma getFileFromCodeHandler_no_blobs:
  "getFileFromCodeHandler (5 * Minute) None no_blobs ((request_of bob)\<lparr>code_param := ''newcode2''\<rparr>) =
     ([ServerErrorResponse (PathError ''open'' ''./cache/alice@example.org/new.txt'' ENOENT)], no_blobs)"
proof -
  have "walk_error (fs no_blobs) ''./cache/alice@example.org/new.txt'' = Some ENOENT"
    by (simp add: walk_defs clean_step_def Let_def no_blobs_def)
  then show ?thesis
    using GetFromCode_new
    by (simp add: getFileFromCodeHandler_def os_Open_def Path_scan8_new request_of_def)
qed

lemma getUserFileHandler_sample:
  "GetFromUser (5 * Minute) None (db sample_app) 2 alice = Inr (scan8 new_row)"
  by (simp add: GetFromUser_def QueryRow_def sample_defs)

theorem retrieval_blob_missing_witness:
  "GetFromCode (5 * Minute) None (db no_blobs) ''newcode2'' = Inr (scan8 new_row) \<and>
   \<not> is_file (fs no_blobs) (filepath_Clean (Path (scan8 new_row))) \<and>
   getFileFromCodeHandler (5 * Minute) None no_blobs
       ((request_of bob)\<lparr>code_param := ''newcode2''\<rparr>) =
     ([ServerErrorResponse (PathError ''open'' ''./cache/alice@example.org/new.txt'' ENOENT)],
      no_blobs) \<and>
   GetFromUser (5 * Minute) None (db sample_app) 2 alice = Inr (scan8 new_row) \<and>
   getUserFileHandler (5 * Minute) None sample_app ((request_of alice)\<lparr>id_param := Some 2\<rparr>) =
     ([WriteJSON 200 (FileJSON (scan8 new_row))], sample_app)"
proof -
  have "getUserFileHandler (5 * Minute) None sample_app
          ((request_of alice)\<lparr>id_param := Some 2\<rparr>) =
        ([WriteJSON 200 (FileJSON (scan8 new_row))], sample_app)"
    using retrieval_blob_missing
        [of "5 * Minute" None sample_app "(request_of alice)\<lparr>id_param := Some 2\<rparr>" _ 2
            "scan8 new_row"]
      getUserFileHandler_sample
    by (simp add: request_of_def)
  then show ?thesis
    using retrieval_blob_missing
        [of "5 * Minute" None no_blobs "(request_of bob)\<lparr>code_param := ''newcode2''\<rparr>"
            "scan8 new_row"]
      GetFromCode_new no_blob_new getFileFromCodeHandler_no_blobs getUserFileHandler_sample
    by simp
qed

theorem owner_retrieval_ignores_missing_blob:
  "GetFromUser (5 * Minute) None (db no_blobs) 2 alice = Inr (scan8 new_row) \<and>
   \<not> is_file (fs no_blobs) (filepath_Clean (Path (scan8 new_row))) \<and>
   getUserFileHandler (5 * Minute) None no_blobs ((request_of alice)\<lparr>id_param := Some 2\<rparr>) =
     ([WriteJSON 200 (FileJSON (scan8 new_row))], no_blobs)"
  using GetFromUser_new no_blob_new
  by (simp add: getUserFileHandler_def request_of_def)

subsection \<open>Codes of calls at the same instant\<close>

text \<open>
  Claim C8, as amended. The source is made anew on every call and seeded with the clock
  reading, so the code is a function of that reading: two calls return the same code
  exactly when the sources of their seeds agree modulo 62 on the first eight numbers,
  and in particular whenever they read the same clock value.
\<close>

theorem generateUniqueString_same_code_iff:
  "(generateUniqueString NewSource t1 = generateUniqueString NewSource t2 \<longleftrightarrow>
      (\<forall>i<8. NewSource t1 i mod 62 = NewSource t2 i mod 62)) \<and>
   (t1 = t2 \<longrightarrow> generateUniqueString NewSource t1 = generateUniqueString NewSource t2)"
proof -
  have "generateUniqueString NewSource t1 = generateUniqueString NewSource t2 \<longleftrightarrow>
          (\<forall>i<8. NewSource t1 i mod 62 = NewSource t2 i mod 62)"
  proof
    assume eq: "generateUniqueString NewSource t1 = generateUniqueString NewSource t2"
    show "\<forall>i<8. NewSource t1 i mod 62 = NewSource t2 i mod 62"
    proof (intro allI impI)
      fix i :: nat
      assume i: "i < 8"
      have "letterRunes ! (NewSource t1 i mod 62) = letterRunes ! (NewSource t2 i mod 62)"
        using eq nth_generateUniqueString [OF i] by metis
      then show "NewSource t1 i mod 62 = NewSource t2 i mod 62"
        using distinct_letterRunes length_letterRunes by (simp add: nth_eq_iff_index_eq)
    qed
  next
    assume "\<forall>i<8. NewSource t1 i mod 62 = NewSource t2 i mod 62"
    then show "generateUniqueString NewSource t1 = generateUniqueString NewSource t2"
      by (intro nth_equalityI) (simp_all add: length_generateUniqueString nth_generateUniqueString)
  qed
  then show ?thesis by blast
qed

theorem generateUniqueString_same_code_iff_witness:
  "generateUniqueString sample_source 5 = generateUniqueString sample_source (- 5) \<and>
   generateUniqueString sample_source 5 \<noteq> generateUniqueString sample_source 6"
proof -
  have a: "\<forall>i<8. sample_source 5 i mod 62 = sample_source (- 5) i mod 62"
    by (simp add: sample_source_def)
  have b: "\<not> (\<forall>i<8. sample_source 5 i mod 62 = sample_source 6 i mod 62)"
  proof
    assume "\<forall>i<8. sample_source 5 i mod 62 = sample_source 6 i mod 62"
    then have "sample_source 5 0 mod 62 = sample_source 6 0 mod 62" by simp
    then show False by (simp add: sample_source_def)
  qed
  show ?thesis
    using a b generateUniqueString_same_code_iff [of sample_source 5 "- 5"]
      generateUniqueString_same_code_iff [of sample_source 5 6]
    by blast
qed

theorem same_instant_same_code:
  "uploadFileHandler sample_source 5 (5 * Minute) (5 * Minute) None sample_app
     ((request_of bob)\<lparr>form_file := Inr upload_a\<rparr>) =
     ([WriteJSON 202 (FileJSON uploaded_a)], after_upload) \<and>
   Code uploaded_a = generateUniqueString sample_source 5 \<and>
   uploadFileHandler sample_source 5 (5 * Minute) (5 * Minute) None after_upload
     ((request_of alice)\<lparr>form_file := Inr (upload_a\<lparr>Filename := ''b.txt''\<rparr>)\<rparr>) =
     ([ServerErrorResponse (DriverError code_key_msg)],
      after_upload\<lparr>db := \<lparr>rows = [old_row, new_row, uploaded_a], seq = 4\<rparr>\<rparr>)"
proof -
  have c: "Code uploaded_a = generateUniqueString sample_source 5"
    by (simp add: generateUniqueString_sample_5 uploaded_a_def)
  have v: "Valid (ValidateFile validator_New
             \<lparr>ID = 0, Name = ''b.txt'', Size = 3, Path = ''./cache/alice@example.org/b.txt'',
              Code = ''fmtAHOV3'', Expiry = 5 * Minute + 2 * Minute, CreatedAt = 0,
              LastUpdated = 0, UserID = 1\<rparr>)"
    by (simp add: Valid_ValidateFile_iff)
  have i: "Insert (5 * Minute) None (db after_upload)
             \<lparr>ID = 0, Name = ''b.txt'', Size = 3, Path = ''./cache/alice@example.org/b.txt'',
              Code = ''fmtAHOV3'', Expiry = 5 * Minute + 2 * Minute, CreatedAt = 0,
              LastUpdated = 0, UserID = 1\<rparr> =
           (Inl (DriverError code_key_msg), \<lparr>rows = [old_row, new_row, uploaded_a], seq = 4\<rparr>)"
    by (simp add: Insert_def insert_returning_def Let_def after_upload_def uploaded_a_def
          old_row_def new_row_def code_key_msg_def path_key_msg_def)
  have "uploadFileHandler sample_source 5 (5 * Minute) (5 * Minute) None after_upload
     ((request_of alice)\<lparr>form_file := Inr (upload_a\<lparr>Filename := ''b.txt''\<rparr>)\<rparr>) =
     ([ServerErrorResponse (DriverError code_key_msg)],
      after_upload\<lparr>db := \<lparr>rows = [old_row, new_row, uploaded_a], seq = 4\<rparr>\<rparr>)"
    using v i
    by (simp add: uploadFileHandler_def Let_def generateUniqueString_sample_5 request_of_def
          alice_def upload_a_def)
       (simp add: code_key_msg_def)
  then show ?thesis
    using c upload_a_eval by simp
qed

end
